theory Spec2Isabelle
  imports Main "HOL-Library.Word" "HOL-Library.Sublist"
begin

unbundle bit_operations_syntax

section \<open>Expressions and source locations\<close>

text \<open>
  An \<open>SMLoc\<close> wraps a pointer into the source buffer; the null pointer is the default
  location \<open>SMLoc()\<close>. The parser only compares locations and subtracts one from them.
\<close>

type_synonym SMLoc = int

text \<open>
  Modelled from the spec: the expression type of \<open>llvm/MC/MCExpr.h\<close>, which is not part of
  the parser's file. An expression is either a resolved constant (a signed 64-bit value) or
  an unresolved symbolic expression; \<open>dyn_cast<MCConstantExpr>\<close> succeeds on the first
  constructor only.
\<close>

datatype MCExpr =
    MCConstantExpr "64 word"
  | MCSymbolRefExpr string
  | MCUnaryExpr nat MCExpr
  | MCBinaryExpr nat MCExpr MCExpr

text \<open>\<open>inRange\<close>: true if the expression is a constant in \<open>[MinValue, MaxValue]\<close> (signed).\<close>

definition inRange :: "MCExpr \<Rightarrow> 64 word \<Rightarrow> 64 word \<Rightarrow> bool" where
  "inRange Expr MinValue MaxValue =
     (case Expr of
        MCConstantExpr Value \<Rightarrow> MinValue <=s Value \<and> Value <=s MaxValue
      | _ \<Rightarrow> False)"

section \<open>Operands\<close>

datatype RegisterKind =
  PCReg | GR32Reg | GR64Reg | GR128Reg | ADDR32Reg | ADDR64Reg | FP32Reg | FP64Reg | FP128Reg

datatype OperandKind = KindToken | KindReg | KindAccessReg | KindImm | KindMem

text \<open>
  \<open>MemOp\<close>: base, index and register kind are 8-bit bit-fields, so a register number
  stored there keeps its low eight bits.
\<close>

record MemOp =
  Base :: "8 word"
  Index :: "8 word"
  RegKind :: RegisterKind
  Disp :: MCExpr

text \<open>
  The class keeps a kind tag next to a union of the five payloads. Every operand is built
  by one of the \<open>create\<close> functions, which set the tag and the matching member together,
  so the tag is read off the payload here.
\<close>

datatype OperandData =
    Token string
  | Reg RegisterKind "32 word"
  | AccessReg "32 word"
  | Imm MCExpr
  | Mem MemOp

record RISCVOperand =
  Data :: OperandData
  StartLoc :: SMLoc
  EndLoc :: SMLoc

fun KindOf :: "OperandData \<Rightarrow> OperandKind" where
  "KindOf (Token _) = KindToken"
| "KindOf (Reg _ _) = KindReg"
| "KindOf (AccessReg _) = KindAccessReg"
| "KindOf (Imm _) = KindImm"
| "KindOf (Mem _) = KindMem"

definition Kind :: "RISCVOperand \<Rightarrow> OperandKind" where
  "Kind Op = KindOf (Data Op)"

definition createToken :: "string \<Rightarrow> SMLoc \<Rightarrow> RISCVOperand" where
  "createToken Str Loc = \<lparr>Data = Token Str, StartLoc = Loc, EndLoc = Loc\<rparr>"

definition createReg :: "RegisterKind \<Rightarrow> 32 word \<Rightarrow> SMLoc \<Rightarrow> SMLoc \<Rightarrow> RISCVOperand" where
  "createReg K Num SLoc ELoc = \<lparr>Data = Reg K Num, StartLoc = SLoc, EndLoc = ELoc\<rparr>"

definition createAccessReg :: "32 word \<Rightarrow> SMLoc \<Rightarrow> SMLoc \<Rightarrow> RISCVOperand" where
  "createAccessReg Num SLoc ELoc = \<lparr>Data = AccessReg Num, StartLoc = SLoc, EndLoc = ELoc\<rparr>"

definition createImm :: "MCExpr \<Rightarrow> SMLoc \<Rightarrow> SMLoc \<Rightarrow> RISCVOperand" where
  "createImm Expr SLoc ELoc = \<lparr>Data = Imm Expr, StartLoc = SLoc, EndLoc = ELoc\<rparr>"

definition createMem ::
  "RegisterKind \<Rightarrow> 32 word \<Rightarrow> MCExpr \<Rightarrow> 32 word \<Rightarrow> SMLoc \<Rightarrow> SMLoc \<Rightarrow> RISCVOperand" where
  "createMem RK B D I SLoc ELoc =
     \<lparr>Data = Mem \<lparr>Base = ucast B, Index = ucast I, RegKind = RK, Disp = D\<rparr>,
      StartLoc = SLoc, EndLoc = ELoc\<rparr>"

subsection \<open>Classification predicates\<close>

definition isToken :: "RISCVOperand \<Rightarrow> bool" where
  "isToken Op = (Kind Op = KindToken)"

definition isReg :: "RISCVOperand \<Rightarrow> bool" where
  "isReg Op = (Kind Op = KindReg)"

definition isRegKind :: "RISCVOperand \<Rightarrow> RegisterKind \<Rightarrow> bool" where
  "isRegKind Op RK = (case Data Op of Reg K _ \<Rightarrow> K = RK | _ \<Rightarrow> False)"

definition isAccessReg :: "RISCVOperand \<Rightarrow> bool" where
  "isAccessReg Op = (Kind Op = KindAccessReg)"

definition isImm :: "RISCVOperand \<Rightarrow> bool" where
  "isImm Op = (Kind Op = KindImm)"

text \<open>\<open>isImm(MinValue, MaxValue)\<close>: the kind test, then \<open>inRange\<close> on the immediate.\<close>

definition isImmRange :: "RISCVOperand \<Rightarrow> 64 word \<Rightarrow> 64 word \<Rightarrow> bool" where
  "isImmRange Op MinValue MaxValue =
     (case Data Op of Imm E \<Rightarrow> inRange E MinValue MaxValue | _ \<Rightarrow> False)"

definition isMem :: "RISCVOperand \<Rightarrow> bool" where
  "isMem Op = (Kind Op = KindMem)"

definition isMemKind :: "RISCVOperand \<Rightarrow> RegisterKind \<Rightarrow> bool \<Rightarrow> bool" where
  "isMemKind Op RK HasIndex =
     (case Data Op of
        Mem M \<Rightarrow> RegKind M = RK \<and> (HasIndex \<or> Index M = 0)
      | _ \<Rightarrow> False)"

definition isMemDisp12 :: "RISCVOperand \<Rightarrow> RegisterKind \<Rightarrow> bool \<Rightarrow> bool" where
  "isMemDisp12 Op RK HasIndex =
     (isMemKind Op RK HasIndex \<and>
      (case Data Op of Mem M \<Rightarrow> inRange (Disp M) 0 0xfff | _ \<Rightarrow> False))"

definition isMemDisp20 :: "RISCVOperand \<Rightarrow> RegisterKind \<Rightarrow> bool \<Rightarrow> bool" where
  "isMemDisp20 Op RK HasIndex =
     (isMemKind Op RK HasIndex \<and>
      (case Data Op of Mem M \<Rightarrow> inRange (Disp M) (- 524288) 524287 | _ \<Rightarrow> False))"

definition isBDAddr32Disp12 :: "RISCVOperand \<Rightarrow> bool" where
  "isBDAddr32Disp12 Op = isMemDisp12 Op ADDR32Reg False"

definition isBDAddr32Disp20 :: "RISCVOperand \<Rightarrow> bool" where
  "isBDAddr32Disp20 Op = isMemDisp20 Op ADDR32Reg False"

definition isBDAddr64Disp12 :: "RISCVOperand \<Rightarrow> bool" where
  "isBDAddr64Disp12 Op = isMemDisp12 Op ADDR64Reg False"

definition isBDAddr64Disp20 :: "RISCVOperand \<Rightarrow> bool" where
  "isBDAddr64Disp20 Op = isMemDisp20 Op ADDR64Reg False"

definition isBDXAddr64Disp12 :: "RISCVOperand \<Rightarrow> bool" where
  "isBDXAddr64Disp12 Op = isMemDisp12 Op ADDR64Reg True"

definition isBDXAddr64Disp20 :: "RISCVOperand \<Rightarrow> bool" where
  "isBDXAddr64Disp20 Op = isMemDisp20 Op ADDR64Reg True"

definition isU4Imm :: "RISCVOperand \<Rightarrow> bool" where
  "isU4Imm Op = isImmRange Op 0 15"

definition isU6Imm :: "RISCVOperand \<Rightarrow> bool" where
  "isU6Imm Op = isImmRange Op 0 63"

definition isU8Imm :: "RISCVOperand \<Rightarrow> bool" where
  "isU8Imm Op = isImmRange Op 0 255"

definition isS8Imm :: "RISCVOperand \<Rightarrow> bool" where
  "isS8Imm Op = isImmRange Op (- 128) 127"

definition isU12Imm :: "RISCVOperand \<Rightarrow> bool" where
  "isU12Imm Op = isImmRange Op 0 4096"

definition isS12Imm :: "RISCVOperand \<Rightarrow> bool" where
  "isS12Imm Op = isImmRange Op (- 2048) 2047"

definition isU16Imm :: "RISCVOperand \<Rightarrow> bool" where
  "isU16Imm Op = isImmRange Op 0 65535"

definition isS16Imm :: "RISCVOperand \<Rightarrow> bool" where
  "isS16Imm Op = isImmRange Op (- 32768) 32767"

definition isU20Imm :: "RISCVOperand \<Rightarrow> bool" where
  "isU20Imm Op = isImmRange Op 0 1048576"

definition isS20Imm :: "RISCVOperand \<Rightarrow> bool" where
  "isS20Imm Op = isImmRange Op (- 2048) 2047"

definition isU32Imm :: "RISCVOperand \<Rightarrow> bool" where
  "isU32Imm Op = isImmRange Op 0 (push_bit 32 1 - 1)"

definition isS32Imm :: "RISCVOperand \<Rightarrow> bool" where
  "isS32Imm Op = isImmRange Op (- push_bit 31 1) (push_bit 31 1 - 1)"

section \<open>The lexer and the parser state\<close>

text \<open>
  The lexer is an external collaborator. The parser sees it as a cursor over a token
  stream: \<open>getTok\<close> reads the current token and \<open>Lex\<close> advances. At the end of the buffer
  the lexer keeps returning an \<open>Eof\<close> token.
\<close>

datatype TokenKind =
    Eof | ErrorTok | Identifier | String | Integer | EndOfStatement
  | Plus | Minus | Comma | Dollar | LParen | RParen | Percent | Other

record AsmToken =
  TokKind :: TokenKind
  TokString :: string
  TokLoc :: SMLoc
  TokIntVal :: "64 word"

text \<open>
  The state threaded through the parser: the remaining tokens, the location of the end of
  the buffer, and the diagnostics reported so far through \<open>Error(Loc, Msg)\<close>.
\<close>

record ParserState =
  Toks :: "AsmToken list"
  EofLoc :: SMLoc
  Diags :: "(SMLoc \<times> string) list"

definition getTok :: "ParserState \<Rightarrow> AsmToken" where
  "getTok S =
     (case Toks S of
        [] \<Rightarrow> \<lparr>TokKind = Eof, TokString = [], TokLoc = EofLoc S, TokIntVal = 0\<rparr>
      | T # _ \<Rightarrow> T)"

definition Lex :: "ParserState \<Rightarrow> ParserState" where
  "Lex S = (case Toks S of [] \<Rightarrow> S | _ # Ts \<Rightarrow> S\<lparr>Toks := Ts\<rparr>)"

text \<open>\<open>Error\<close> records the diagnostic; its C++ return value is always \<open>true\<close>.\<close>

definition Error :: "SMLoc \<Rightarrow> string \<Rightarrow> ParserState \<Rightarrow> ParserState" where
  "Error Loc Msg S = S\<lparr>Diags := Diags S @ [(Loc, Msg)]\<rparr>"

datatype OperandMatchResultTy =
  MatchOperand_Success | MatchOperand_NoMatch | MatchOperand_ParseFail

text \<open>
  Ways the C++ leaves defined behaviour: a read past the end of a register table, a failed
  \<open>assert\<close>, and \<open>llvm_unreachable\<close>.
\<close>

datatype abort = OutOfBoundsRead | AssertionFailed string | Unreachable string

section \<open>Register tables\<close>

text \<open>
  The tables list the enumerators \<open>RISCV::X0 .. RISCV::X31\<close>, \<open>RISCV::PC\<close> and
  \<open>RISCV::F0 .. RISCV::F31\<close>. Their values come from the generated register description,
  so they are parameters here: \<open>X i\<close> is the value of \<open>RISCV::Xi\<close>, and so on. The
  one-entry table \<open>PCReg[]\<close> is called \<open>PCRegs\<close>, since \<open>PCReg\<close> is also a register kind.
\<close>

definition GR32Regs :: "(nat \<Rightarrow> 32 word) \<Rightarrow> 32 word list" where
  "GR32Regs X = map X [0 ..< 32]"

definition PCRegs :: "32 word \<Rightarrow> 32 word list" where
  "PCRegs PC = [PC]"

definition FP32Regs :: "(nat \<Rightarrow> 32 word) \<Rightarrow> 32 word list" where
  "FP32Regs F = map F [0 ..< 32]"

section \<open>Parsing registers\<close>

record Register =
  Prefix :: char
  Number :: "32 word"
  Reg_StartLoc :: SMLoc
  Reg_EndLoc :: SMLoc

text \<open>
  A \<open>Register\<close> local is declared without an initialiser; every field is written before it
  is read. This value stands for the fresh local.
\<close>

definition FreshRegister :: Register where
  "FreshRegister = \<lparr>Prefix = CHR 0x00, Number = 0, Reg_StartLoc = 0, Reg_EndLoc = 0\<rparr>"

text \<open>
  Modelled from the spec: \<open>StringRef::getAsInteger(10, unsigned&)\<close>, which lives in the
  support library. The text must be a non-empty string of decimal digits whose value fits
  an \<open>unsigned\<close>; otherwise the conversion fails and leaves the result untouched.
\<close>

definition digitValue :: "char \<Rightarrow> nat option" where
  "digitValue C =
     (let N = (of_char C :: nat) in
      if of_char CHR ''0'' \<le> N \<and> N \<le> of_char CHR ''9'' then Some (N - of_char CHR ''0'')
      else None)"

fun decimalValue :: "nat \<Rightarrow> string \<Rightarrow> nat option" where
  "decimalValue Acc [] = Some Acc"
| "decimalValue Acc (C # Cs) =
     (case digitValue C of None \<Rightarrow> None | Some D \<Rightarrow> decimalValue (Acc * 10 + D) Cs)"

definition getAsInteger :: "string \<Rightarrow> 32 word option" where
  "getAsInteger Str =
     (if Str = [] then None
      else case decimalValue 0 Str of
             None \<Rightarrow> None
           | Some N \<Rightarrow> if N < 2 ^ 32 then Some (of_nat N) else None)"

text \<open>
  \<open>parseRegister(Register &Reg)\<close>: parse one register of the form
  \<open>%<prefix><number>\<close>. The boolean is \<open>true\<close> on failure.
\<close>

definition parseRegister :: "Register \<Rightarrow> ParserState \<Rightarrow> bool \<times> Register \<times> ParserState" where
  "parseRegister Reg0 S =
     (let Reg1 = Reg0\<lparr>Reg_StartLoc := TokLoc (getTok S)\<rparr> in
      if TokKind (getTok S) \<noteq> Percent then (True, Reg1, S)
      else
        let S1 = Lex S in
        if TokKind (getTok S1) \<noteq> Identifier then (True, Reg1, S1)
        else
          let Name = TokString (getTok S1) in
          if length Name < 2 then (True, Reg1, S1)
          else
            let Reg2 = Reg1\<lparr>Prefix := hd Name\<rparr> in
            case getAsInteger (tl Name) of
              None \<Rightarrow> (True, Reg2, S1)
            | Some N \<Rightarrow>
                (False, Reg2\<lparr>Number := N, Reg_EndLoc := TokLoc (getTok S1)\<rparr>, Lex S1))"

text \<open>
  \<open>parseRegister(Reg, Prefix, Regs, IsAddress)\<close>: parse a register with the given prefix
  and convert it to LLVM numbering. The condition of the first \<open>if\<close> is evaluated left to
  right, so the table is read only when the prefix matches and the number is at most 15.
\<close>

definition parseRegister_Regs ::
  "Register \<Rightarrow> char \<Rightarrow> 32 word list \<Rightarrow> bool \<Rightarrow> ParserState \<Rightarrow>
   abort + (OperandMatchResultTy \<times> Register \<times> ParserState)" where
  "parseRegister_Regs Reg0 Pfx Regs IsAddress S =
     (case parseRegister Reg0 S of
        (True, Reg1, S1) \<Rightarrow> Inr (MatchOperand_NoMatch, Reg1, S1)
      | (False, Reg1, S1) \<Rightarrow>
          if Prefix Reg1 \<noteq> Pfx \<or> Number Reg1 > 15 then
            Inr (MatchOperand_ParseFail, Reg1, Error (Reg_StartLoc Reg1) ''invalid register'' S1)
          else if \<not> unat (Number Reg1) < length Regs then Inl OutOfBoundsRead
          else if Regs ! unat (Number Reg1) = 0 then
            Inr (MatchOperand_ParseFail, Reg1, Error (Reg_StartLoc Reg1) ''invalid register'' S1)
          else if Number Reg1 = 0 \<and> IsAddress then
            Inr (MatchOperand_ParseFail, Reg1,
                 Error (Reg_StartLoc Reg1) ''%r0 used in an address'' S1)
          else
            Inr (MatchOperand_Success, Reg1\<lparr>Number := Regs ! unat (Number Reg1)\<rparr>, S1))"

text \<open>
  \<open>parseRegister(Operands, Prefix, Regs, Kind, IsAddress)\<close>: parse a register and add it
  to \<open>Operands\<close>.
\<close>

definition parseRegister_Operands ::
  "RISCVOperand list \<Rightarrow> char \<Rightarrow> 32 word list \<Rightarrow> RegisterKind \<Rightarrow> bool \<Rightarrow> ParserState \<Rightarrow>
   abort + (OperandMatchResultTy \<times> RISCVOperand list \<times> ParserState)" where
  "parseRegister_Operands Operands Pfx Regs K IsAddress S =
     (case parseRegister_Regs FreshRegister Pfx Regs IsAddress S of
        Inl A \<Rightarrow> Inl A
      | Inr (Result, Reg1, S1) \<Rightarrow>
          if Result = MatchOperand_Success then
            Inr (Result,
                 Operands @ [createReg K (Number Reg1) (Reg_StartLoc Reg1) (Reg_EndLoc Reg1)],
                 S1)
          else Inr (Result, Operands, S1))"

section \<open>Parsing addresses\<close>

text \<open>
  The expression parser is external: \<open>parseExpression\<close> either yields an expression or
  fails, and in both cases may have consumed tokens and reported diagnostics.
\<close>

type_synonym ExprParser = "ParserState \<Rightarrow> MCExpr option \<times> ParserState"

text \<open>The end of \<open>parseAddress\<close>: compute \<open>EndLoc\<close>, push the memory operand, succeed.\<close>

definition parseAddress_push ::
  "RISCVOperand list \<Rightarrow> RegisterKind \<Rightarrow> 32 word \<Rightarrow> MCExpr \<Rightarrow> 32 word \<Rightarrow> SMLoc \<Rightarrow>
   ParserState \<Rightarrow> OperandMatchResultTy \<times> RISCVOperand list \<times> ParserState" where
  "parseAddress_push Operands RK B D I SLoc S =
     (let ELoc = TokLoc (getTok S) - 1 in
      (MatchOperand_Success, Operands @ [createMem RK B D I SLoc ELoc], S))"

text \<open>The closing bracket of the parenthesised suffix, then the end of the function.\<close>

definition parseAddress_close ::
  "RISCVOperand list \<Rightarrow> RegisterKind \<Rightarrow> 32 word \<Rightarrow> MCExpr \<Rightarrow> 32 word \<Rightarrow> SMLoc \<Rightarrow>
   ParserState \<Rightarrow> OperandMatchResultTy \<times> RISCVOperand list \<times> ParserState" where
  "parseAddress_close Operands RK B D I SLoc S =
     (if TokKind (getTok S) \<noteq> RParen then (MatchOperand_NoMatch, Operands, S)
      else parseAddress_push Operands RK B D I SLoc (Lex S))"

text \<open>
  \<open>parseAddress(Operands, Regs, RegKind, HasIndex)\<close>. The registers are always looked up
  in \<open>GR32Regs\<close> with prefix \<open>x\<close> in an address context; the \<open>Regs\<close> argument is not used.
\<close>

definition parseAddress ::
  "ExprParser \<Rightarrow> (nat \<Rightarrow> 32 word) \<Rightarrow> RISCVOperand list \<Rightarrow> 32 word list \<Rightarrow> RegisterKind \<Rightarrow>
   bool \<Rightarrow> ParserState \<Rightarrow> abort + (OperandMatchResultTy \<times> RISCVOperand list \<times> ParserState)" where
  "parseAddress parseExpression X Operands Regs RK HasIndex S =
     (let SLoc = TokLoc (getTok S) in
      case parseExpression S of
        (None, S1) \<Rightarrow> Inr (MatchOperand_NoMatch, Operands, S1)
      | (Some D, S1) \<Rightarrow>
          if TokKind (getTok S1) = LParen then
            (case parseRegister_Regs FreshRegister CHR ''x'' (GR32Regs X) True (Lex S1) of
               Inl A \<Rightarrow> Inl A
             | Inr (Result, Reg1, S2) \<Rightarrow>
                 if Result \<noteq> MatchOperand_Success then Inr (Result, Operands, S2)
                 else if TokKind (getTok S2) = Comma then
                   (let S3 = Lex S2 in
                    if \<not> HasIndex then
                      Inr (MatchOperand_ParseFail, Operands,
                           Error (Reg_StartLoc Reg1) ''invalid use of indexed addressing'' S3)
                    else
                      case parseRegister_Regs Reg1 CHR ''x'' (GR32Regs X) True S3 of
                        Inl A \<Rightarrow> Inl A
                      | Inr (Result2, Reg2, S4) \<Rightarrow>
                          if Result2 \<noteq> MatchOperand_Success then Inr (Result2, Operands, S4)
                          else Inr (parseAddress_close Operands RK (Number Reg2) D
                                      (Number Reg1) SLoc S4))
                 else Inr (parseAddress_close Operands RK (Number Reg1) D 0 SLoc S2))
          else Inr (parseAddress_push Operands RK 0 D 0 SLoc S1))"

definition parseGR32 where
  "parseGR32 X Operands S = parseRegister_Operands Operands CHR ''r'' (GR32Regs X) GR32Reg False S"

definition parsePCReg where
  "parsePCReg PC Operands S = parseRegister_Operands Operands CHR ''p'' (PCRegs PC) PCReg False S"

definition parseADDR32 where
  "parseADDR32 X Operands S =
     parseRegister_Operands Operands CHR ''r'' (GR32Regs X) ADDR32Reg True S"

definition parseFP32 where
  "parseFP32 F Operands S = parseRegister_Operands Operands CHR ''f'' (FP32Regs F) FP32Reg False S"

definition parseBDAddr32 where
  "parseBDAddr32 parseExpression X Operands S =
     parseAddress parseExpression X Operands (GR32Regs X) ADDR32Reg False S"

definition parseBDAddr64 where
  "parseBDAddr64 parseExpression X Operands S =
     parseAddress parseExpression X Operands (GR32Regs X) ADDR32Reg False S"

definition parseBDXAddr64 where
  "parseBDXAddr64 parseExpression X Operands S =
     parseAddress parseExpression X Operands (GR32Regs X) ADDR32Reg True S"

definition parseAccessReg ::
  "RISCVOperand list \<Rightarrow> ParserState \<Rightarrow> OperandMatchResultTy \<times> RISCVOperand list \<times> ParserState" where
  "parseAccessReg Operands S =
     (case parseRegister FreshRegister S of
        (True, Reg1, S1) \<Rightarrow> (MatchOperand_NoMatch, Operands, S1)
      | (False, Reg1, S1) \<Rightarrow>
          if Prefix Reg1 \<noteq> CHR ''a'' \<or> Number Reg1 > 15 then
            (MatchOperand_ParseFail, Operands, Error (Reg_StartLoc Reg1) ''invalid register'' S1)
          else
            (MatchOperand_Success,
             Operands @ [createAccessReg (Number Reg1) (Reg_StartLoc Reg1) (Reg_EndLoc Reg1)],
             S1))"

section \<open>Parsing operands and instructions\<close>

text \<open>
  \<open>MatchOperandParserImpl\<close> is generated from the target description: it picks the custom
  operand parser for the mnemonic and the operand position and runs it.
\<close>

type_synonym CustomParser =
  "RISCVOperand list \<Rightarrow> string \<Rightarrow> ParserState \<Rightarrow>
   abort + (OperandMatchResultTy \<times> RISCVOperand list \<times> ParserState)"

text \<open>\<open>parseOperand\<close>: the boolean is \<open>true\<close> on failure.\<close>

definition parseOperand ::
  "CustomParser \<Rightarrow> ExprParser \<Rightarrow> RISCVOperand list \<Rightarrow> string \<Rightarrow> ParserState \<Rightarrow>
   abort + (bool \<times> RISCVOperand list \<times> ParserState)" where
  "parseOperand MatchOperandParserImpl parseExpression Operands Mnemonic S =
     (case MatchOperandParserImpl Operands Mnemonic S of
        Inl A \<Rightarrow> Inl A
      | Inr (ResTy, Operands1, S1) \<Rightarrow>
          if ResTy = MatchOperand_Success then Inr (False, Operands1, S1)
          else if ResTy = MatchOperand_ParseFail then Inr (True, Operands1, S1)
          else
            (let SLoc = TokLoc (getTok S1) in
             (case parseExpression S1 of
                (None, S2) \<Rightarrow> Inr (True, Operands1, S2)
              | (Some Expr, S2) \<Rightarrow>
                  (let ELoc = TokLoc (getTok S2) - 1 in
                   Inr (False, Operands1 @ [createImm Expr SLoc ELoc], S2)))))"

section \<open>Matching and emitting\<close>

text \<open>
  \<open>MatchInstructionImpl\<close> and \<open>getSubtargetFeatureName\<close> are generated from the target
  description and are parameters here. The match result is compared with the four codes
  the \<open>switch\<close> names; every other value takes the \<open>default\<close> branch.
\<close>

datatype MatchResultTy =
  Match_InvalidOperand | Match_MissingFeature | Match_MnemonicFail | Match_Success | Match_Other

datatype MCOperand = CreateReg "32 word" | CreateImm "64 word" | CreateExpr MCExpr

record MCInst =
  InstOpcode :: "32 word"
  InstOperands :: "MCOperand list"
  InstLoc :: SMLoc

text \<open>
  The loop of the \<open>Match_MissingFeature\<close> case. The first numeric argument counts the
  iterations that remain; \<open>Mask\<close> is shifted left once per iteration.
\<close>

primrec MissingFeatureLoop ::
  "(32 word \<Rightarrow> string) \<Rightarrow> 32 word \<Rightarrow> nat \<Rightarrow> 32 word \<Rightarrow> string \<Rightarrow> string" where
  "MissingFeatureLoop getSubtargetFeatureName ErrorInfo 0 Mask Msg = Msg"
| "MissingFeatureLoop getSubtargetFeatureName ErrorInfo (Suc N) Mask Msg =
     MissingFeatureLoop getSubtargetFeatureName ErrorInfo N (push_bit 1 Mask)
       (if ErrorInfo AND Mask \<noteq> 0
        then Msg @ '' '' @ getSubtargetFeatureName (ErrorInfo AND Mask)
        else Msg)"

text \<open>
  The message of the case: the loop runs while \<open>I < sizeof(ErrorInfo) * 8 - 1\<close>, with a
  four-byte \<open>unsigned\<close>.
\<close>

definition MissingFeatureMsg :: "(32 word \<Rightarrow> string) \<Rightarrow> 32 word \<Rightarrow> string" where
  "MissingFeatureMsg getSubtargetFeatureName ErrorInfo =
     MissingFeatureLoop getSubtargetFeatureName ErrorInfo (4 * 8 - 1) 1 ''instruction requires:''"

text \<open>
  \<open>MatchAndEmitInstruction\<close>: the result holds the returned boolean (\<open>true\<close> on failure),
  the instructions emitted to the streamer, \<open>ErrorInfo\<close> and the parser state.
\<close>

definition MatchAndEmitInstruction ::
  "(RISCVOperand list \<Rightarrow> 32 word \<Rightarrow> bool \<Rightarrow> MatchResultTy \<times> MCInst \<times> 32 word) \<Rightarrow>
   (32 word \<Rightarrow> string) \<Rightarrow> SMLoc \<Rightarrow> RISCVOperand list \<Rightarrow> MCInst list \<Rightarrow> 32 word \<Rightarrow> bool \<Rightarrow>
   ParserState \<Rightarrow> abort + (bool \<times> MCInst list \<times> 32 word \<times> ParserState)" where
  "MatchAndEmitInstruction MatchInstructionImpl getSubtargetFeatureName IDLoc Operands Out
       ErrorInfo0 MatchingInlineAsm S =
     (case MatchInstructionImpl Operands ErrorInfo0 MatchingInlineAsm of
        (MatchResult, Inst, ErrorInfo) \<Rightarrow>
          (case MatchResult of
             Match_Success \<Rightarrow> Inr (False, Out @ [Inst\<lparr>InstLoc := IDLoc\<rparr>], ErrorInfo, S)
           | Match_MissingFeature \<Rightarrow>
               if ErrorInfo = 0 then Inl (AssertionFailed ''Unknown missing feature!'')
               else Inr (True, Out, ErrorInfo,
                         Error IDLoc (MissingFeatureMsg getSubtargetFeatureName ErrorInfo) S)
           | Match_InvalidOperand \<Rightarrow>
               if ErrorInfo \<noteq> NOT 0 then
                 if unat ErrorInfo \<ge> length Operands then
                   Inr (True, Out, ErrorInfo, Error IDLoc ''too few operands for instruction'' S)
                 else
                   let ErrorLoc0 = StartLoc (Operands ! unat ErrorInfo);
                       ErrorLoc = (if ErrorLoc0 = 0 then IDLoc else ErrorLoc0)
                   in Inr (True, Out, ErrorInfo,
                           Error ErrorLoc ''invalid operand for instruction'' S)
               else Inr (True, Out, ErrorInfo, Error IDLoc ''invalid operand for instruction'' S)
           | Match_MnemonicFail \<Rightarrow> Inr (True, Out, ErrorInfo, Error IDLoc ''invalid instruction'' S)
           | Match_Other \<Rightarrow> Inl (Unreachable ''Unexpected match type'')))"

section \<open>Concrete inputs\<close>

text \<open>Tokens as the lexer builds them: kind, spelling and location.\<close>

definition Tok :: "TokenKind \<Rightarrow> string \<Rightarrow> SMLoc \<Rightarrow> AsmToken" where
  "Tok K Str Loc = \<lparr>TokKind = K, TokString = Str, TokLoc = Loc, TokIntVal = 0\<rparr>"

definition IntTok :: "64 word \<Rightarrow> string \<Rightarrow> SMLoc \<Rightarrow> AsmToken" where
  "IntTok V Str Loc = \<lparr>TokKind = Integer, TokString = Str, TokLoc = Loc, TokIntVal = V\<rparr>"

text \<open>
  Modelled from the spec: the external expression parser, cut down to the two primary
  expressions that the examples use. An integer token is a constant, an identifier is a
  symbol reference, and anything else fails with a diagnostic. It is used only to run the
  parser on concrete lines.
\<close>

definition parsePrimaryExpr :: ExprParser where
  "parsePrimaryExpr S =
     (let T = getTok S in
      if TokKind T = Integer then (Some (MCConstantExpr (TokIntVal T)), Lex S)
      else if TokKind T = Identifier then (Some (MCSymbolRefExpr (TokString T)), Lex S)
      else (None, Error (TokLoc T) ''unknown token in expression'' S))"

text \<open>A register enumeration for the examples: \<open>RISCV::Xi\<close> has the value \<open>i + 1\<close>.\<close>

definition exampleX :: "nat \<Rightarrow> 32 word" where
  "exampleX I = of_nat (Suc I)"

text \<open>A parser state at the start of a token list, with no diagnostics yet.\<close>

definition exampleState :: "AsmToken list \<Rightarrow> ParserState" where
  "exampleState Ts = \<lparr>Toks = Ts, EofLoc = 1000, Diags = []\<rparr>"

section \<open>Immediate range predicates\<close>

text \<open>
  C4. The immediate range predicates are exact at their boundaries: on constant immediate
  operands, \<open>isU4Imm\<close> holds for 0 and 15 and fails for -1 and 16, and \<open>isS12Imm\<close> holds for
  -2048 and 2047 and fails for -2049 and 2048.
\<close>

theorem imm_range_boundaries:
  "isU4Imm (createImm (MCConstantExpr 0) SLoc ELoc) \<and>
   isU4Imm (createImm (MCConstantExpr 15) SLoc ELoc) \<and>
   \<not> isU4Imm (createImm (MCConstantExpr (- 1)) SLoc ELoc) \<and>
   \<not> isU4Imm (createImm (MCConstantExpr 16) SLoc ELoc) \<and>
   isS12Imm (createImm (MCConstantExpr (- 2048)) SLoc ELoc) \<and>
   isS12Imm (createImm (MCConstantExpr 2047) SLoc ELoc) \<and>
   \<not> isS12Imm (createImm (MCConstantExpr (- 2049)) SLoc ELoc) \<and>
   \<not> isS12Imm (createImm (MCConstantExpr 2048) SLoc ELoc)"
  by (simp add: isU4Imm_def isS12Imm_def isImmRange_def createImm_def inRange_def word_sle_eq)

text \<open>
  A range check that succeeds reads a constant: the immediate of an immediate operand, or
  the displacement of a memory operand.
\<close>

lemma inRange_constant: "inRange E Lo Hi \<Longrightarrow> \<exists>V. E = MCConstantExpr V"
  by (cases E) (simp_all add: inRange_def)

lemma isImmRange_constant: "isImmRange Op Lo Hi \<Longrightarrow> \<exists>V. Data Op = Imm (MCConstantExpr V)"
  by (auto simp: isImmRange_def split: OperandData.splits dest: inRange_constant)

lemma isMemDisp12_constant:
  "isMemDisp12 Op RK HasIndex \<Longrightarrow> \<exists>M V. Data Op = Mem M \<and> Disp M = MCConstantExpr V"
  by (auto simp: isMemDisp12_def split: OperandData.splits dest: inRange_constant)

lemma isMemDisp20_constant:
  "isMemDisp20 Op RK HasIndex \<Longrightarrow> \<exists>M V. Data Op = Mem M \<and> Disp M = MCConstantExpr V"
  by (auto simp: isMemDisp20_def split: OperandData.splits dest: inRange_constant)

text \<open>
  C5. Every numeric range-classification predicate (\<open>isImm(min,max)\<close>, \<open>isMemDisp12\<close>,
  \<open>isMemDisp20\<close>) returns false for an operand whose expression is not a resolved constant
  integer, for all bounds, all register kinds and both settings of \<open>HasIndex\<close>. The
  expression of an immediate operand is its immediate; that of a memory operand is its
  displacement.
\<close>

theorem range_checks_reject_symbolic:
  "(\<not> (\<exists>V. Data Op = Imm (MCConstantExpr V)) \<longrightarrow> \<not> isImmRange Op Lo Hi) \<and>
   (\<not> (\<exists>M V. Data Op = Mem M \<and> Disp M = MCConstantExpr V) \<longrightarrow>
      \<not> isMemDisp12 Op RK HasIndex \<and> \<not> isMemDisp20 Op RK HasIndex)"
proof (intro conjI impI)
  assume "\<not> (\<exists>V. Data Op = Imm (MCConstantExpr V))"
  then show "\<not> isImmRange Op Lo Hi"
    using isImmRange_constant [of Op Lo Hi] by blast
next
  assume nc: "\<not> (\<exists>M V. Data Op = Mem M \<and> Disp M = MCConstantExpr V)"
  show "\<not> isMemDisp12 Op RK HasIndex"
    using nc isMemDisp12_constant [of Op RK HasIndex] by blast
  show "\<not> isMemDisp20 Op RK HasIndex"
    using nc isMemDisp20_constant [of Op RK HasIndex] by blast
qed

theorem range_checks_reject_symbolic_witness:
  "\<not> (\<exists>V. Data (createImm (MCSymbolRefExpr ''foo'') 0 2) = Imm (MCConstantExpr V)) \<and>
   \<not> isImmRange (createImm (MCSymbolRefExpr ''foo'') 0 2) 0 15 \<and>
   \<not> (\<exists>M V. Data (createMem ADDR32Reg 2 (MCSymbolRefExpr ''foo'') 0 0 2) = Mem M \<and>
            Disp M = MCConstantExpr V) \<and>
   \<not> isMemDisp12 (createMem ADDR32Reg 2 (MCSymbolRefExpr ''foo'') 0 0 2) ADDR32Reg False \<and>
   \<not> isMemDisp20 (createMem ADDR32Reg 2 (MCSymbolRefExpr ''foo'') 0 0 2) ADDR32Reg False"
proof -
  have imm: "\<not> (\<exists>V. Data (createImm (MCSymbolRefExpr ''foo'') 0 2) = Imm (MCConstantExpr V))"
    by (simp add: createImm_def)
  have mem: "\<not> (\<exists>M V. Data (createMem ADDR32Reg 2 (MCSymbolRefExpr ''foo'') 0 0 2) = Mem M \<and>
                     Disp M = MCConstantExpr V)"
    by (auto simp: createMem_def)
  from imm mem
    range_checks_reject_symbolic
      [of "createImm (MCSymbolRefExpr ''foo'') 0 2" 0 15 ADDR32Reg False]
    range_checks_reject_symbolic
      [of "createMem ADDR32Reg 2 (MCSymbolRefExpr ''foo'') 0 0 2" 0 15 ADDR32Reg False]
  show ?thesis by blast
qed

text \<open>
  C10. \<open>isS20Imm\<close> and \<open>isS12Imm\<close> are extensionally equal: on every operand, \<open>isS20Imm\<close>
  holds exactly when the operand is a constant immediate in \<open>[-2048, 2047]\<close>, the range of
  \<open>isS12Imm\<close>, and not the 20-bit signed range; a constant immediate 4096 satisfies
  neither predicate.
\<close>

theorem isS20Imm_is_isS12Imm:
  "isS20Imm Op = isS12Imm Op \<and>
   isS20Imm Op = (\<exists>V. Data Op = Imm (MCConstantExpr V) \<and> - 2048 \<le> sint V \<and> sint V \<le> 2047) \<and>
   \<not> isS20Imm (createImm (MCConstantExpr 4096) SLoc ELoc) \<and>
   \<not> isS12Imm (createImm (MCConstantExpr 4096) SLoc ELoc)"
proof -
  have eq: "isS20Imm Op = isS12Imm Op"
    by (simp add: isS20Imm_def isS12Imm_def)
  have range: "isS20Imm Op =
      (\<exists>V. Data Op = Imm (MCConstantExpr V) \<and> - 2048 \<le> sint V \<and> sint V \<le> 2047)"
    by (auto simp: isS20Imm_def isImmRange_def inRange_def word_sle_eq
             split: OperandData.splits MCExpr.splits)
  have big: "\<not> isS20Imm (createImm (MCConstantExpr 4096) SLoc ELoc)"
       "\<not> isS12Imm (createImm (MCConstantExpr 4096) SLoc ELoc)"
    by (simp_all add: isS20Imm_def isS12Imm_def isImmRange_def createImm_def inRange_def
                      word_sle_eq)
  from eq range big show ?thesis by blast
qed

section \<open>The register resolver\<close>

lemma getTok_Cons: "Toks S = T # Ts \<Longrightarrow> getTok S = T"
  by (simp add: getTok_def)

lemma Lex_Cons: "Toks S = T # Ts \<Longrightarrow> Lex S = S\<lparr>Toks := Ts\<rparr>"
  by (simp add: Lex_def)

lemma getAsInteger_nonempty: "getAsInteger Ds = Some N \<Longrightarrow> Ds \<noteq> []"
  by (auto simp: getAsInteger_def)

lemma parseRegister_tokens:
  assumes toks: "Toks S = T1 # T2 # Rest"
    and kinds: "TokKind T1 = Percent" "TokKind T2 = Identifier"
    and name: "TokString T2 = P # Ds" "getAsInteger Ds = Some N"
  shows "parseRegister Reg0 S =
           (False,
            Reg0\<lparr>Reg_StartLoc := TokLoc T1, Prefix := P, Number := N, Reg_EndLoc := TokLoc T2\<rparr>,
            S\<lparr>Toks := Rest\<rparr>)"
proof -
  have g0: "getTok S = T1" using toks by (rule getTok_Cons)
  have l0: "Lex S = S\<lparr>Toks := T2 # Rest\<rparr>" using toks by (rule Lex_Cons)
  have g1: "getTok (Lex S) = T2" by (simp add: l0 getTok_def)
  have "Lex (S\<lparr>Toks := T2 # Rest\<rparr>) = S\<lparr>Toks := Rest\<rparr>" by (simp add: Lex_def)
  then have l1: "Lex (Lex S) = S\<lparr>Toks := Rest\<rparr>" by (simp only: l0)
  have ne: "Ds \<noteq> []" using name(2) by (rule getAsInteger_nonempty)
  show ?thesis
    unfolding parseRegister_def Let_def
    by (simp add: g0 g1 l1 kinds name ne)
qed

lemma length_GR32Regs: "length (GR32Regs X) = 32"
  by (simp add: GR32Regs_def)

lemma nth_GR32Regs: "I < 32 \<Longrightarrow> GR32Regs X ! I = X I"
  by (simp add: GR32Regs_def)


lemma parseRegister_Regs_Success:
  assumes "parseRegister Reg0 S = (False, Reg1, S1)"
    and "Prefix Reg1 = Pfx" "Number Reg1 \<le> 15" "unat (Number Reg1) < length Regs"
    and "Regs ! unat (Number Reg1) \<noteq> 0" "Number Reg1 \<noteq> 0 \<or> \<not> IsAddress"
  shows "parseRegister_Regs Reg0 Pfx Regs IsAddress S =
           Inr (MatchOperand_Success, Reg1\<lparr>Number := Regs ! unat (Number Reg1)\<rparr>, S1)"
  using assms by (auto simp: parseRegister_Regs_def)



text \<open>
  A register inside an address: \<open>%x<n>\<close> with \<open>1 \<le> n \<le> 15\<close> and a non-zero table entry
  resolves to that entry.
\<close>

lemma parseRegister_Regs_address:
  assumes toks: "Toks S = Tok Percent Pc L1 # Tok Identifier (CHR ''x'' # Ds) L2 # Rest"
    and num: "getAsInteger Ds = Some N" "N \<noteq> 0" "N \<le> 15" "X (unat N) \<noteq> 0"
  shows "parseRegister_Regs Reg0 CHR ''x'' (GR32Regs X) True S =
           Inr (MatchOperand_Success,
                Reg0\<lparr>Reg_StartLoc := L1, Prefix := CHR ''x'', Number := X (unat N),
                     Reg_EndLoc := L2\<rparr>,
                S\<lparr>Toks := Rest\<rparr>)"
proof -
  have lex: "parseRegister Reg0 S =
      (False, Reg0\<lparr>Reg_StartLoc := L1, Prefix := CHR ''x'', Number := N, Reg_EndLoc := L2\<rparr>,
       S\<lparr>Toks := Rest\<rparr>)"
    using parseRegister_tokens [OF toks _ _ _ num(1), of "CHR ''x''" Reg0]
    by (simp add: Tok_def)
  have small: "unat N < 32"
    using num(3) by (simp add: word_le_nat_alt)
  show ?thesis
    using parseRegister_Regs_Success [OF lex, of "CHR ''x''" "GR32Regs X" True] num small
    by (simp add: length_GR32Regs nth_GR32Regs)
qed


subsection \<open>Evaluating the parser on concrete lines\<close>

lemmas example_simps =
  exampleState_def Tok_def IntTok_def exampleX_def FreshRegister_def parsePrimaryExpr_def
  getTok_def Lex_def Error_def getAsInteger_def digitValue_def GR32Regs_def

lemma parseRegister_x0:
  "parseRegister FreshRegister (exampleState [Tok Percent ''%'' 10, Tok Identifier ''x0'' 11]) =
     (False, \<lparr>Prefix = CHR ''x'', Number = 0, Reg_StartLoc = 10, Reg_EndLoc = 11\<rparr>,
      exampleState [])"
  by (simp add: parseRegister_def example_simps)













text \<open>
  C7. Resolving register index 0 in an address context (\<open>IsAddress = true\<close>) fails with
  the diagnostic \<open>%r0 used in an address\<close>; resolving the same register outside an address
  context succeeds and yields the table entry.
\<close>

theorem zero_register_in_address:
  assumes "parseRegister Reg0 S = (False, Reg1, S1)"
    and "Prefix Reg1 = Pfx" "Number Reg1 = 0" "Regs \<noteq> []" "Regs ! 0 \<noteq> 0"
  shows "parseRegister_Regs Reg0 Pfx Regs True S =
           Inr (MatchOperand_ParseFail, Reg1,
                Error (Reg_StartLoc Reg1) ''%r0 used in an address'' S1) \<and>
         parseRegister_Regs Reg0 Pfx Regs False S =
           Inr (MatchOperand_Success, Reg1\<lparr>Number := Regs ! 0\<rparr>, S1)"
  using assms by (auto simp: parseRegister_Regs_def)

theorem zero_register_in_address_witness:
  "parseRegister_Regs FreshRegister CHR ''x'' (GR32Regs exampleX) True
     (exampleState [Tok Percent ''%'' 10, Tok Identifier ''x0'' 11]) =
     Inr (MatchOperand_ParseFail,
          \<lparr>Prefix = CHR ''x'', Number = 0, Reg_StartLoc = 10, Reg_EndLoc = 11\<rparr>,
          \<lparr>Toks = [], EofLoc = 1000, Diags = [(10, ''%r0 used in an address'')]\<rparr>) \<and>
   parseRegister_Regs FreshRegister CHR ''x'' (GR32Regs exampleX) False
     (exampleState [Tok Percent ''%'' 10, Tok Identifier ''x0'' 11]) =
     Inr (MatchOperand_Success,
          \<lparr>Prefix = CHR ''x'', Number = 1, Reg_StartLoc = 10, Reg_EndLoc = 11\<rparr>,
          exampleState [])"
  using zero_register_in_address [OF parseRegister_x0, of "CHR ''x''" "GR32Regs exampleX"]
  by (simp add: GR32Regs_def exampleX_def Error_def exampleState_def)


section \<open>Addresses\<close>

lemma Tok_sel:
  "TokKind (Tok K Str L) = K" "TokString (Tok K Str L) = Str" "TokLoc (Tok K Str L) = L"
  by (simp_all add: Tok_def)

lemma getTok_upd: "getTok (S\<lparr>Toks := T # Ts\<rparr>) = T"
  by (simp add: getTok_def)

lemma Lex_upd: "Lex (S\<lparr>Toks := T # Ts\<rparr>) = S\<lparr>Toks := Ts\<rparr>"
  by (simp add: Lex_def)

lemma parseRegister_Regs_address_upd:
  assumes "getAsInteger Ds = Some N" "N \<noteq> 0" "N \<le> 15" "X (unat N) \<noteq> 0"
  shows "parseRegister_Regs Reg0 CHR ''x'' (GR32Regs X) True
           (S\<lparr>Toks := Tok Percent Pc L1 # Tok Identifier (CHR ''x'' # Ds) L2 # Rest\<rparr>) =
         Inr (MatchOperand_Success,
              Reg0\<lparr>Reg_StartLoc := L1, Prefix := CHR ''x'', Number := X (unat N),
                   Reg_EndLoc := L2\<rparr>,
              S\<lparr>Toks := Rest\<rparr>)"
  using parseRegister_Regs_address
          [of "S\<lparr>Toks := Tok Percent Pc L1 # Tok Identifier (CHR ''x'' # Ds) L2 # Rest\<rparr>"
              Pc L1 Ds L2 Rest N X Reg0] assms
  by simp

lemma parseAddress_two_registers:
  assumes expr: "parseExpression S = (Some D, S1)"
    and toks: "Toks S1 =
        Tok LParen ''('' L0 # Tok Percent ''%'' L1 # Tok Identifier (CHR ''x'' # Ds1) L2 #
        Tok Comma '','' L3 # Tok Percent ''%'' L4 # Tok Identifier (CHR ''x'' # Ds2) L5 #
        Tok RParen '')'' L6 # Rest"
    and r1: "getAsInteger Ds1 = Some N1" "N1 \<noteq> 0" "N1 \<le> 15" "X (unat N1) \<noteq> 0"
    and r2: "getAsInteger Ds2 = Some N2" "N2 \<noteq> 0" "N2 \<le> 15" "X (unat N2) \<noteq> 0"
  shows "parseAddress parseExpression X Operands Regs RK True S =
           Inr (MatchOperand_Success,
                Operands @ [createMem RK (X (unat N2)) D (X (unat N1)) (TokLoc (getTok S))
                              (TokLoc (getTok (S1\<lparr>Toks := Rest\<rparr>)) - 1)],
                S1\<lparr>Toks := Rest\<rparr>)"
  unfolding parseAddress_def Let_def
  by (simp add: expr getTok_Cons [OF toks] Lex_Cons [OF toks] Tok_sel getTok_upd Lex_upd
        parseRegister_Regs_address_upd [where X = X, OF r1] parseRegister_Regs_address_upd [where X = X, OF r2]
        parseAddress_close_def parseAddress_push_def)

lemma parseAddress_one_register:
  assumes expr: "parseExpression S = (Some D, S1)"
    and toks: "Toks S1 =
        Tok LParen ''('' L0 # Tok Percent ''%'' L1 # Tok Identifier (CHR ''x'' # Ds1) L2 #
        Tok RParen '')'' L3 # Rest"
    and r1: "getAsInteger Ds1 = Some N1" "N1 \<noteq> 0" "N1 \<le> 15" "X (unat N1) \<noteq> 0"
  shows "parseAddress parseExpression X Operands Regs RK HasIndex S =
           Inr (MatchOperand_Success,
                Operands @ [createMem RK (X (unat N1)) D 0 (TokLoc (getTok S))
                              (TokLoc (getTok (S1\<lparr>Toks := Rest\<rparr>)) - 1)],
                S1\<lparr>Toks := Rest\<rparr>)"
  unfolding parseAddress_def Let_def
  by (simp add: expr getTok_Cons [OF toks] Lex_Cons [OF toks] Tok_sel getTok_upd Lex_upd
        parseRegister_Regs_address_upd [where X = X, OF r1]
        parseAddress_close_def parseAddress_push_def)

text \<open>
  C1. In \<open>parseAddress\<close> with indexing permitted, when the parenthesised suffix holds two
  registers, the register parsed first becomes the index and the register parsed second
  becomes the base: \<open>4(%x1,%x2)\<close> yields the memory operand with base \<open>x2\<close>, index \<open>x1\<close>
  and displacement 4. When it holds one register, that register becomes the base and the
  index is 0: \<open>4(%x1)\<close> yields base \<open>x1\<close>, index 0 and displacement 4. A register is written
  with the \<open>%\<close> sigil, and inside an address it is one of \<open>%x1 .. %x15\<close>.
\<close>

theorem parseAddress_index_then_base:
  assumes expr2: "parseExpression S = (Some D, S1)"
    and toks2: "Toks S1 =
        Tok LParen ''('' L0 # Tok Percent ''%'' L1 # Tok Identifier (CHR ''x'' # Ds1) L2 #
        Tok Comma '','' L3 # Tok Percent ''%'' L4 # Tok Identifier (CHR ''x'' # Ds2) L5 #
        Tok RParen '')'' L6 # Rest"
    and expr1: "parseExpression S' = (Some D', S1')"
    and toks1: "Toks S1' =
        Tok LParen ''('' M0 # Tok Percent ''%'' M1 # Tok Identifier (CHR ''x'' # Ds1) M2 #
        Tok RParen '')'' M3 # Rest'"
    and r1: "getAsInteger Ds1 = Some N1" "N1 \<noteq> 0" "N1 \<le> 15" "X (unat N1) \<noteq> 0"
    and r2: "getAsInteger Ds2 = Some N2" "N2 \<noteq> 0" "N2 \<le> 15" "X (unat N2) \<noteq> 0"
  shows "parseAddress parseExpression X Operands Regs RK True S =
           Inr (MatchOperand_Success,
                Operands @ [createMem RK (X (unat N2)) D (X (unat N1)) (TokLoc (getTok S))
                              (TokLoc (getTok (S1\<lparr>Toks := Rest\<rparr>)) - 1)],
                S1\<lparr>Toks := Rest\<rparr>) \<and>
         parseAddress parseExpression X Operands Regs RK HasIndex S' =
           Inr (MatchOperand_Success,
                Operands @ [createMem RK (X (unat N1)) D' 0 (TokLoc (getTok S'))
                              (TokLoc (getTok (S1'\<lparr>Toks := Rest'\<rparr>)) - 1)],
                S1'\<lparr>Toks := Rest'\<rparr>)"
  using parseAddress_two_registers [where X = X and parseExpression = parseExpression, OF expr2 toks2 r1 r2]
        parseAddress_one_register [where X = X and parseExpression = parseExpression, OF expr1 toks1 r1]
  by simp

theorem parseAddress_index_then_base_witness:
  "parseAddress parsePrimaryExpr exampleX [] (GR32Regs exampleX) ADDR32Reg True
     (exampleState
        [IntTok 4 ''4'' 0, Tok LParen ''('' 1, Tok Percent ''%'' 2, Tok Identifier ''x1'' 3,
         Tok Comma '','' 5, Tok Percent ''%'' 6, Tok Identifier ''x2'' 7, Tok RParen '')'' 9,
         Tok EndOfStatement [] 10]) =
     Inr (MatchOperand_Success,
          [\<lparr>Data = Mem \<lparr>Base = ucast (exampleX 2), Index = ucast (exampleX 1),
                        RegKind = ADDR32Reg, Disp = MCConstantExpr 4\<rparr>,
            StartLoc = 0, EndLoc = 9\<rparr>],
          exampleState [Tok EndOfStatement [] 10]) \<and>
   parseAddress parsePrimaryExpr exampleX [] (GR32Regs exampleX) ADDR32Reg True
     (exampleState
        [IntTok 4 ''4'' 0, Tok LParen ''('' 1, Tok Percent ''%'' 2, Tok Identifier ''x1'' 3,
         Tok RParen '')'' 5, Tok EndOfStatement [] 6]) =
     Inr (MatchOperand_Success,
          [\<lparr>Data = Mem \<lparr>Base = ucast (exampleX 1), Index = 0,
                        RegKind = ADDR32Reg, Disp = MCConstantExpr 4\<rparr>,
            StartLoc = 0, EndLoc = 5\<rparr>],
          exampleState [Tok EndOfStatement [] 6])"
proof -
  let ?two = "[Tok LParen ''('' 1, Tok Percent ''%'' 2, Tok Identifier ''x1'' 3,
         Tok Comma '','' 5, Tok Percent ''%'' 6, Tok Identifier ''x2'' 7, Tok RParen '')'' 9,
         Tok EndOfStatement [] 10]"
  let ?one = "[Tok LParen ''('' 1, Tok Percent ''%'' 2, Tok Identifier ''x1'' 3,
         Tok RParen '')'' 5, Tok EndOfStatement [] 6]"
  have e2: "parsePrimaryExpr (exampleState (IntTok 4 ''4'' 0 # ?two)) =
              (Some (MCConstantExpr 4), exampleState ?two)"
    by (simp add: example_simps)
  have e1: "parsePrimaryExpr (exampleState (IntTok 4 ''4'' 0 # ?one)) =
              (Some (MCConstantExpr 4), exampleState ?one)"
    by (simp add: example_simps)
  have t2: "Toks (exampleState ?two) = ?two" by (simp add: exampleState_def)
  have t1: "Toks (exampleState ?one) = ?one" by (simp add: exampleState_def)
  have n1: "getAsInteger ''1'' = Some 1" "(1 :: 32 word) \<noteq> 0" "(1 :: 32 word) \<le> 15"
           "exampleX (unat (1 :: 32 word)) \<noteq> 0"
    by (simp_all add: getAsInteger_def digitValue_def exampleX_def)
  have n2: "getAsInteger ''2'' = Some 2" "(2 :: 32 word) \<noteq> 0" "(2 :: 32 word) \<le> 15"
           "exampleX (unat (2 :: 32 word)) \<noteq> 0"
    by (simp_all add: getAsInteger_def digitValue_def exampleX_def)
  show ?thesis
    using parseAddress_index_then_base
            [where X = exampleX and parseExpression = parsePrimaryExpr and Operands = "[]" and Regs = "GR32Regs exampleX"
               and RK = ADDR32Reg and HasIndex = True, OF e2 t2 e1 t1 n1 n2]
    by (simp add: createMem_def exampleState_def getTok_def Tok_def IntTok_def exampleX_def)
qed

text \<open>
  C8. When \<open>parseAddress\<close> is called with indexing not permitted (\<open>HasIndex = false\<close>) and
  a comma follows the first register inside the parentheses, it fails with
  \<open>MatchOperand_ParseFail\<close> and the diagnostic \<open>invalid use of indexed addressing\<close> at the
  start of the first-parsed register, and no operand is pushed.
\<close>

theorem parseAddress_index_not_permitted:
  assumes expr: "parseExpression S = (Some D, S1)"
    and toks: "Toks S1 =
        Tok LParen ''('' L0 # Tok Percent ''%'' L1 # Tok Identifier (CHR ''x'' # Ds1) L2 #
        Tok Comma '','' L3 # Rest"
    and r1: "getAsInteger Ds1 = Some N1" "N1 \<noteq> 0" "N1 \<le> 15" "X (unat N1) \<noteq> 0"
  shows "parseAddress parseExpression X Operands Regs RK False S =
           Inr (MatchOperand_ParseFail, Operands,
                Error L1 ''invalid use of indexed addressing'' (S1\<lparr>Toks := Rest\<rparr>))"
  unfolding parseAddress_def Let_def
  by (simp add: expr getTok_Cons [OF toks] Lex_Cons [OF toks] Tok_sel getTok_upd Lex_upd
        parseRegister_Regs_address_upd [where X = X, OF r1])

theorem parseAddress_index_not_permitted_witness:
  "parseAddress parsePrimaryExpr exampleX [] (GR32Regs exampleX) ADDR32Reg False
     (exampleState
        [IntTok 4 ''4'' 0, Tok LParen ''('' 1, Tok Percent ''%'' 2, Tok Identifier ''x1'' 3,
         Tok Comma '','' 5, Tok Percent ''%'' 6, Tok Identifier ''x2'' 7, Tok RParen '')'' 9,
         Tok EndOfStatement [] 10]) =
     Inr (MatchOperand_ParseFail, [],
          \<lparr>Toks = [Tok Percent ''%'' 6, Tok Identifier ''x2'' 7, Tok RParen '')'' 9,
                   Tok EndOfStatement [] 10],
           EofLoc = 1000,
           Diags = [(2, ''invalid use of indexed addressing'')]\<rparr>)"
proof -
  let ?rest = "[Tok Percent ''%'' 6, Tok Identifier ''x2'' 7, Tok RParen '')'' 9,
         Tok EndOfStatement [] 10]"
  let ?two = "Tok LParen ''('' 1 # Tok Percent ''%'' 2 # Tok Identifier ''x1'' 3 #
         Tok Comma '','' 5 # ?rest"
  have e: "parsePrimaryExpr (exampleState (IntTok 4 ''4'' 0 # ?two)) =
              (Some (MCConstantExpr 4), exampleState ?two)"
    by (simp add: example_simps)
  have t: "Toks (exampleState ?two) = ?two" by (simp add: exampleState_def)
  have n1: "getAsInteger ''1'' = Some 1" "(1 :: 32 word) \<noteq> 0" "(1 :: 32 word) \<le> 15"
           "exampleX (unat (1 :: 32 word)) \<noteq> 0"
    by (simp_all add: getAsInteger_def digitValue_def exampleX_def)
  show ?thesis
    using parseAddress_index_not_permitted
            [where X = exampleX and parseExpression = parsePrimaryExpr and Operands = "[]" and Regs = "GR32Regs exampleX"
               and RK = ADDR32Reg, OF e t n1]
    by (simp add: exampleState_def Error_def)
qed


section \<open>The missing-feature diagnostic\<close>

text \<open>
  The loop appends, for each bit position from the starting one that is set in
  \<open>ErrorInfo\<close>, a blank and the name of that feature bit.
\<close>

lemma MissingFeatureLoop_append:
  "MissingFeatureLoop Name E N (push_bit K 1) Msg =
     Msg @ concat (map (\<lambda>I. if bit E I then '' '' @ Name (E AND push_bit I 1) else [])
                       [K ..< K + N])"
proof (induction N arbitrary: K Msg)
  case 0
  show ?case by simp
next
  case (Suc N)
  have shift: "push_bit 1 (push_bit K (1 :: 32 word)) = push_bit (Suc K) 1"
    by (simp add: push_bit_push_bit)
  have test: "(E AND push_bit K 1 \<noteq> 0) = bit E K"
    by (simp add: bit_iff_and_push_bit_not_eq_0)
  have range: "[K ..< K + Suc N] = K # [Suc K ..< Suc K + N]"
    by (simp add: upt_conv_Cons)
  show ?case
    by (simp only: MissingFeatureLoop.simps shift test range Suc.IH) simp
qed

lemma MissingFeatureMsg_eq:
  "MissingFeatureMsg Name E =
     ''instruction requires:'' @
     concat (map (\<lambda>I. if bit E I then '' '' @ Name (E AND push_bit I 1) else []) [0 ..< 31])"
  using MissingFeatureLoop_append [of Name E 31 0 "''instruction requires:''"]
  by (simp add: MissingFeatureMsg_def)

text \<open>Every set bit below position 31 is named in the message.\<close>

lemma MissingFeatureMsg_names_low_bits:
  assumes "I < 31" "bit E I"
  shows "sublist ('' '' @ Name (E AND push_bit I 1)) (MissingFeatureMsg Name E)"
proof -
  let ?f = "\<lambda>I. if bit E I then '' '' @ Name (E AND push_bit I 1) else []"
  have "I \<in> set [0 ..< 31]" using assms(1) by simp
  then obtain Ps Ss where split: "[0 ..< 31] = Ps @ I # Ss"
    by (meson split_list)
  have "concat (map ?f [0 ..< 31]) = concat (map ?f Ps) @ ?f I @ concat (map ?f Ss)"
    by (simp only: split map_append concat_append list.map concat.simps)
  then have "MissingFeatureMsg Name E =
      (''instruction requires:'' @ concat (map ?f Ps)) @ ('' '' @ Name (E AND push_bit I 1)) @
      concat (map ?f Ss)"
    using assms(2) by (simp add: MissingFeatureMsg_eq)
  then show ?thesis
    unfolding sublist_def by blast
qed

lemma top_bit_only:
  assumes "I < 31"
  shows "\<not> bit (0x80000000 :: 32 word) I"
proof -
  have "(0x80000000 :: 32 word) = 2 ^ 31" by simp
  then have "bit (0x80000000 :: 32 word) I = bit (2 ^ 31 :: 32 word) I" by (simp only:)
  also have "\<dots> = (I = 31)" by (auto simp add: bit_exp_iff simp del: power_numeral)
  finally show ?thesis using assms by simp
qed

text \<open>
  The loop stops after 31 iterations, so bit 31 is never tested.
\<close>

lemma MissingFeature_top_bit_unnamed:
  "MissingFeatureMsg Name 0x80000000 = ''instruction requires:''"
proof -
  have "\<forall>I \<in> set [0 ..< 31]. \<not> bit (0x80000000 :: 32 word) I"
    using top_bit_only by simp
  then have "map (\<lambda>I. if bit (0x80000000 :: 32 word) I
                       then '' '' @ Name (0x80000000 AND push_bit I 1) else []) [0 ..< 31] =
             map (\<lambda>I. []) [0 ..< 31]"
    by (intro map_cong) simp_all
  then show ?thesis
    by (simp only: MissingFeatureMsg_eq) simp
qed


text \<open>
  C3. The claim is that the diagnostic of a \<open>MissingFeature\<close> result names every set bit
  of a non-zero feature mask. The code tests bits 0 to 30 only: for the mask
  \<open>0x80000000\<close>, whose only set bit is bit 31, the reported message is
  \<open>instruction requires:\<close> with no feature name, whatever the names are.
\<close>

theorem MatchAndEmitInstruction_top_bit_unnamed:
  "MatchAndEmitInstruction (\<lambda>Ops E M. (Match_MissingFeature, Inst, 0x80000000)) Name IDLoc
       Operands Out ErrorInfo0 MatchingInlineAsm S =
     Inr (True, Out, 0x80000000, Error IDLoc ''instruction requires:'' S)"
  by (simp add: MatchAndEmitInstruction_def MissingFeature_top_bit_unnamed)

section \<open>Operands: custom parser first, immediate second\<close>

text \<open>
  C9. In \<open>parseOperand\<close>, a custom \<open>Success\<close> is returned as it is; a custom \<open>ParseFail\<close>
  makes the operand parse fail at once, in the state the custom routine left and whatever
  the expression parser would do; a custom \<open>NoMatch\<close> falls through to the generic
  immediate path, which fails if the expression parser fails and otherwise pushes the
  expression as an immediate operand.
\<close>

theorem parseOperand_custom_result:
  "(MatchOperandParserImpl Operands Mnemonic S = Inr (MatchOperand_Success, Operands1, S1) \<longrightarrow>
      parseOperand MatchOperandParserImpl parseExpression Operands Mnemonic S =
        Inr (False, Operands1, S1)) \<and>
   (MatchOperandParserImpl Operands Mnemonic S = Inr (MatchOperand_ParseFail, Operands1, S1) \<longrightarrow>
      parseOperand MatchOperandParserImpl parseExpression Operands Mnemonic S =
        Inr (True, Operands1, S1)) \<and>
   (MatchOperandParserImpl Operands Mnemonic S = Inr (MatchOperand_NoMatch, Operands1, S1) \<longrightarrow>
      parseOperand MatchOperandParserImpl parseExpression Operands Mnemonic S =
        (case parseExpression S1 of
           (None, S2) \<Rightarrow> Inr (True, Operands1, S2)
         | (Some Expr, S2) \<Rightarrow>
             Inr (False,
                  Operands1 @ [createImm Expr (TokLoc (getTok S1)) (TokLoc (getTok S2) - 1)],
                  S2)))"
  by (simp add: parseOperand_def Let_def split: prod.splits option.splits)

lemma parseGR32_r3:
  "parseGR32 exampleX [] (exampleState [Tok Percent ''%'' 4, Tok Identifier ''r3'' 5]) =
     Inr (MatchOperand_Success, [createReg GR32Reg (exampleX 3) 4 5], exampleState [])"
  by (simp add: parseGR32_def parseRegister_Operands_def parseRegister_Regs_def
        parseRegister_def createReg_def example_simps)

lemma parseGR32_r16:
  "parseGR32 exampleX [] (exampleState [Tok Percent ''%'' 4, Tok Identifier ''r16'' 5]) =
     Inr (MatchOperand_ParseFail, [], Error 4 ''invalid register'' (exampleState []))"
  by (simp add: parseGR32_def parseRegister_Operands_def parseRegister_Regs_def
        parseRegister_def createReg_def example_simps)

lemma parseGR32_5:
  "parseGR32 exampleX [] (exampleState [IntTok 5 ''5'' 4, Tok EndOfStatement [] 5]) =
     Inr (MatchOperand_NoMatch, [], exampleState [IntTok 5 ''5'' 4, Tok EndOfStatement [] 5])"
  by (simp add: parseGR32_def parseRegister_Operands_def parseRegister_Regs_def
        parseRegister_def createReg_def example_simps)

theorem parseOperand_custom_result_witness:
  "parseOperand (\<lambda>Ops M. parseGR32 exampleX Ops) parsePrimaryExpr [] ''add''
     (exampleState [Tok Percent ''%'' 4, Tok Identifier ''r3'' 5]) =
     Inr (False, [createReg GR32Reg (exampleX 3) 4 5], exampleState []) \<and>
   parseOperand (\<lambda>Ops M. parseGR32 exampleX Ops) parsePrimaryExpr [] ''add''
     (exampleState [Tok Percent ''%'' 4, Tok Identifier ''r16'' 5]) =
     Inr (True, [], Error 4 ''invalid register'' (exampleState [])) \<and>
   parseOperand (\<lambda>Ops M. parseGR32 exampleX Ops) parsePrimaryExpr [] ''add''
     (exampleState [IntTok 5 ''5'' 4, Tok EndOfStatement [] 5]) =
     Inr (False, [createImm (MCConstantExpr 5) 4 4], exampleState [Tok EndOfStatement [] 5])"
proof -
  have e: "parsePrimaryExpr (exampleState [IntTok 5 ''5'' 4, Tok EndOfStatement [] 5]) =
             (Some (MCConstantExpr 5), exampleState [Tok EndOfStatement [] 5])"
    by (simp add: example_simps)
  have l: "TokLoc (getTok (exampleState [IntTok 5 ''5'' 4, Tok EndOfStatement [] 5])) = 4"
          "TokLoc (getTok (exampleState [Tok EndOfStatement [] 5])) - 1 = 4"
    by (simp_all add: example_simps)
  show ?thesis
    using parseOperand_custom_result
            [where MatchOperandParserImpl = "\<lambda>Ops M. parseGR32 exampleX Ops"
               and parseExpression = parsePrimaryExpr and Operands = "[]" and Mnemonic = "''add''"
               and S = "exampleState [Tok Percent ''%'' 4, Tok Identifier ''r3'' 5]"
               and ?Operands1.0 = "[createReg GR32Reg (exampleX 3) 4 5]"
               and ?S1.0 = "exampleState []"]
          parseOperand_custom_result
            [where MatchOperandParserImpl = "\<lambda>Ops M. parseGR32 exampleX Ops"
               and parseExpression = parsePrimaryExpr and Operands = "[]" and Mnemonic = "''add''"
               and S = "exampleState [Tok Percent ''%'' 4, Tok Identifier ''r16'' 5]"
               and ?Operands1.0 = "[]"
               and ?S1.0 = "Error 4 ''invalid register'' (exampleState [])"]
          parseOperand_custom_result
            [where MatchOperandParserImpl = "\<lambda>Ops M. parseGR32 exampleX Ops"
               and parseExpression = parsePrimaryExpr and Operands = "[]" and Mnemonic = "''add''"
               and S = "exampleState [IntTok 5 ''5'' 4, Tok EndOfStatement [] 5]"
               and ?Operands1.0 = "[]"
               and ?S1.0 = "exampleState [IntTok 5 ''5'' 4, Tok EndOfStatement [] 5]"]
    by (simp add: parseGR32_r3 parseGR32_r16 parseGR32_5 e l)
qed

section \<open>Unclosed addresses\<close>

text \<open>
  With one register read and a next token that is neither a comma nor a closing
  parenthesis, \<open>parseAddress\<close> returns \<open>NoMatch\<close> in the state after the register, and
  reports nothing.
\<close>

lemma parseAddress_unclosed:
  assumes expr: "parseExpression S = (Some D, S1)"
    and toks: "Toks S1 =
        Tok LParen ''('' L0 # Tok Percent ''%'' L1 # Tok Identifier (CHR ''x'' # Ds1) L2 #
        T # Rest"
    and r1: "getAsInteger Ds1 = Some N1" "N1 \<noteq> 0" "N1 \<le> 15" "X (unat N1) \<noteq> 0"
    and next_tok: "TokKind T \<noteq> Comma" "TokKind T \<noteq> RParen"
  shows "parseAddress parseExpression X Operands Regs RK HasIndex S =
           Inr (MatchOperand_NoMatch, Operands, S1\<lparr>Toks := T # Rest\<rparr>)"
  unfolding parseAddress_def Let_def
  by (simp add: expr getTok_Cons [OF toks] Lex_Cons [OF toks] Tok_sel getTok_upd Lex_upd
        parseRegister_Regs_address_upd [where X = X, OF r1] next_tok parseAddress_close_def)

text \<open>
  C2. The claim is that a missing closing parenthesis, after the opening one and the
  register were consumed, is a parse failure with a diagnostic. The code returns
  \<open>MatchOperand_NoMatch\<close> and reports nothing: on \<open>4(%x1\<close> at the end of the statement
  \<open>parseAddress\<close> gives \<open>NoMatch\<close> with the four tokens consumed and no diagnostic, and on
  \<open>4(%x1 5\<close> the caller \<open>parseOperand\<close> goes on to the generic path and accepts the operand
  as the immediate 5.
\<close>

theorem parseAddress_unclosed_is_NoMatch:
  "parseAddress parsePrimaryExpr exampleX [] (GR32Regs exampleX) ADDR32Reg False
     (exampleState
        [IntTok 4 ''4'' 0, Tok LParen ''('' 1, Tok Percent ''%'' 2, Tok Identifier ''x1'' 3,
         Tok EndOfStatement [] 5]) =
     Inr (MatchOperand_NoMatch, [],
          \<lparr>Toks = [Tok EndOfStatement [] 5], EofLoc = 1000, Diags = []\<rparr>) \<and>
   parseOperand (\<lambda>Ops M. parseBDAddr32 parsePrimaryExpr exampleX Ops) parsePrimaryExpr [] ''lw''
     (exampleState
        [IntTok 4 ''4'' 0, Tok LParen ''('' 1, Tok Percent ''%'' 2, Tok Identifier ''x1'' 3,
         IntTok 5 ''5'' 6, Tok EndOfStatement [] 7]) =
     Inr (False, [createImm (MCConstantExpr 5) 6 6],
          \<lparr>Toks = [Tok EndOfStatement [] 7], EofLoc = 1000, Diags = []\<rparr>)"
  by (simp add: parseOperand_def parseBDAddr32_def parseAddress_def parseAddress_close_def
        parseAddress_push_def parseRegister_Regs_def parseRegister_def createImm_def
        example_simps)


end
